theory Spec2Isabelle
  imports Complex_Main
begin

section \<open>Data model of \<open>src/utils/weather.ts\<close>\<close>

text \<open>
  JavaScript numbers that carry measurements (probabilities, temperatures, coordinates) are
  modelled as \<^typ>\<open>real\<close>: the payload is JSON, which has no NaN and no infinity, and the
  thresholds of the classifier are compared exactly as the source writes them. Weather codes
  are integers (Open-Meteo sends WMO codes), so they are \<^typ>\<open>int\<close>.

  A value that may be \<open>null\<close> or \<open>undefined\<close> at run time is an \<open>option\<close>, with \<open>None\<close>
  for both: the source reads every such value through \<open>??\<close>, \<open>?.\<close>, \<open>== null\<close> or a
  truthiness test, none of which tells the two apart. The fields \<open>id\<close>, \<open>min\<close> and
  \<open>max\<close> carry a prime, because the plain names are constants of HOL.
\<close>

record WeatherEntry =
  id' :: "int option"
  main :: string
  description :: string
  icon :: string

record Temp =
  min' :: "real option"
  max' :: "real option"

record DailyWeather =
  dt :: "int option"
  temp :: Temp
  pop :: "real option"
  weather :: "WeatherEntry list option"

datatype CarCoverAdvice = Cover | Optional | No

text \<open>\<open>a ?? b\<close>: the left operand unless it is nullish.\<close>

definition nullish :: "'a option \<Rightarrow> 'a \<Rightarrow> 'a" where
  "nullish v dflt = (case v of None \<Rightarrow> dflt | Some x \<Rightarrow> x)"

text \<open>\<open>xs[i]\<close>, and \<open>xs?.[i]\<close> on an array that may itself be absent: an index past the
  end reads \<open>undefined\<close>, it does not throw.\<close>

definition at_index :: "'a option list \<Rightarrow> nat \<Rightarrow> 'a option" where
  "at_index xs i = (if i < length xs then xs ! i else None)"

definition opt_index :: "'a option list option \<Rightarrow> nat \<Rightarrow> 'a option" where
  "opt_index a i = (case a of None \<Rightarrow> None | Some xs \<Rightarrow> at_index xs i)"

text \<open>\<open>d.weather?.[0]?.id\<close>\<close>

definition first_id :: "DailyWeather \<Rightarrow> int option" where
  "first_id d =
     (case weather d of
        None \<Rightarrow> None
      | Some [] \<Rightarrow> None
      | Some (w # _) \<Rightarrow> id' w)"

definition getCarCoverAdvice :: "DailyWeather \<Rightarrow> CarCoverAdvice" where
  "getCarCoverAdvice d =
     (let pop0 = nullish (pop d) 0;
          code = nullish (first_id d) 800;
          willRainLikely = (pop0 \<ge> 0.4);
          isStormy = (code \<ge> 200 \<and> code < 600)
      in if willRainLikely \<or> isStormy then No
         else if pop0 \<ge> 0.2 then Optional
         else Cover)"

fun adviceLabel :: "CarCoverAdvice \<Rightarrow> string" where
  "adviceLabel Cover = ''Cover your car''"
| "adviceLabel Optional = ''Cover optional''"
| "adviceLabel No = ''No cover needed''"

fun adviceColor :: "CarCoverAdvice \<Rightarrow> string" where
  "adviceColor No = ''#dc2626''"
| "adviceColor Optional = ''#f97316''"
| "adviceColor Cover = ''#16a34a''"

section \<open>The screen \<open>src/screens/WeatherScreen.tsx\<close>\<close>

subsection \<open>The provider's payload\<close>

text \<open>
  The daily object of Open-Meteo: parallel arrays, one element per day. An element may be
  \<open>null\<close> in the JSON. The two temperature arrays are read without a guard and have the
  declared type \<open>number[]\<close>; the other two are declared optional and read through \<open>?.\<close>;
  \<open>daily\<close> and \<open>time\<close> are tested for absence by the source, so they are options here.
  A payload that lacks a temperature array is outside this type: on it the read at line
  168 or 169 throws a TypeError, and nothing below speaks about such a payload.
\<close>

record OpenMeteoDaily =
  time :: "string list option"
  temperature_2m_max :: "real option list"
  temperature_2m_min :: "real option list"
  precipitation_probability_max :: "real option list option"
  weathercode :: "int option list option"

record OpenMeteoResponse =
  daily :: "OpenMeteoDaily option"

subsection \<open>\<open>describeWeatherCode\<close>\<close>

text \<open>String concatenation \<open>"Weather code " + code\<close>: the decimal numeral of an integer.\<close>

fun show_nat :: "nat \<Rightarrow> string" where
  "show_nat n =
     (if n < 10 then [''0123456789'' ! n]
      else show_nat (n div 10) @ [''0123456789'' ! (n mod 10)])"

declare show_nat.simps [simp del]

definition number_to_string :: "int \<Rightarrow> string" where
  "number_to_string i = (if i < 0 then ''-'' @ show_nat (nat (- i)) else show_nat (nat i))"

definition describeWeatherCode :: "int option \<Rightarrow> string" where
  "describeWeatherCode c =
     (case c of
        None \<Rightarrow> []
      | Some code \<Rightarrow>
          if code = 0 then ''Clear sky''
          else if code = 1 \<or> code = 2 then ''Mainly clear''
          else if code = 3 then ''Cloudy''
          else if code \<ge> 45 \<and> code \<le> 48 then ''Fog''
          else if code \<ge> 51 \<and> code \<le> 57 then ''Drizzle''
          else if code \<ge> 61 \<and> code \<le> 67 then ''Rain''
          else if code \<ge> 71 \<and> code \<le> 77 then ''Snow''
          else if code \<ge> 80 \<and> code \<le> 82 then ''Rain showers''
          else if code \<ge> 95 \<and> code \<le> 99 then ''Thunderstorm''
          else ''Weather code '' @ number_to_string code)"

subsection \<open>Step 5 of \<open>fetchWeather\<close>: the payload becomes day records\<close>

text \<open>
  \<open>new Date(dateStr + "T12:00:00").getTime()\<close> depends on the device's time zone, so the
  function from the date string to the milliseconds is a parameter \<open>getTime\<close>, with
  \<open>None\<close> for the NaN of an invalid date. \<open>Math.round\<close> rounds a half upwards.
\<close>

definition Math_round :: "real \<Rightarrow> int" where
  "Math_round x = \<lfloor>x + 1 / 2\<rfloor>"

definition mapDay :: "(string \<Rightarrow> int option) \<Rightarrow> OpenMeteoDaily \<Rightarrow> string \<Rightarrow> nat \<Rightarrow> DailyWeather" where
  "mapDay getTime d dateStr index =
     (let dtMs = getTime (dateStr @ ''T12:00:00'');
          dt0 = map_option (\<lambda>ms. Math_round (real_of_int ms / 1000)) dtMs;
          max0 = at_index (temperature_2m_max d) index;
          min0 = at_index (temperature_2m_min d) index;
          popRaw = nullish (opt_index (precipitation_probability_max d) index) 0;
          code = nullish (opt_index (weathercode d) index) 0;
          description0 = describeWeatherCode (Some code)
      in \<lparr> dt = dt0,
           temp = \<lparr> min' = min0, max' = max0 \<rparr>,
           pop = Some (popRaw / 100),
           weather = Some [\<lparr> id' = Some code, main = description0,
                             description = description0, icon = [] \<rparr>] \<rparr>)"

text \<open>\<open>d.time.map((dateStr, index) => ...)\<close>\<close>

definition mapped :: "(string \<Rightarrow> int option) \<Rightarrow> OpenMeteoDaily \<Rightarrow> string list \<Rightarrow> DailyWeather list" where
  "mapped getTime d ts = map (\<lambda>(index, dateStr). mapDay getTime d dateStr index) (enumerate 0 ts)"

text \<open>A thrown value, as far as the handler reads it: \<open>err?.message\<close>.\<close>

datatype js_exn = Thrown (message: "string option")

text \<open>
  The guard of lines 158 to 160, the mapping, and the \<open>slice(0, 7)\<close> whose result is
  handed to \<open>setDaily\<close>: the normalizer. \<open>Inl\<close> is the thrown \<open>Error\<close>.
\<close>

definition fetchWeather_normalize :: "(string \<Rightarrow> int option) \<Rightarrow> OpenMeteoResponse \<Rightarrow> js_exn + DailyWeather list" where
  "fetchWeather_normalize getTime res =
     (case OpenMeteoResponse.daily res of
        None \<Rightarrow> Inl (Thrown (Some ''No daily forecast data received.''))
      | Some d \<Rightarrow>
          (case time d of
             None \<Rightarrow> Inl (Thrown (Some ''No daily forecast data received.''))
           | Some ts \<Rightarrow>
               if length ts = 0 then Inl (Thrown (Some ''No daily forecast data received.''))
               else Inr (take 7 (mapped getTime d ts))))"

subsection \<open>The acquisition cycle \<open>fetchWeather\<close>\<close>

datatype PermissionStatus = GRANTED | DENIED | UNDETERMINED

record LocationGeocodedAddress =
  city :: "string option"
  region :: "string option"
  country :: "string option"

text \<open>
  What the device and the network answer in one cycle. Each asynchronous call either
  rejects (\<open>Inl\<close>) or resolves (\<open>Inr\<close>); the two calls that take the coordinates are
  functions of them.
\<close>

record world =
  requestForegroundPermissionsAsync :: "js_exn + PermissionStatus"
  getCurrentPositionAsync :: "js_exn + real \<times> real"
  reverseGeocodeAsync :: "real \<Rightarrow> real \<Rightarrow> js_exn + LocationGeocodedAddress list option"
  axios_get :: "real \<Rightarrow> real \<Rightarrow> js_exn + OpenMeteoResponse"

text \<open>The calls a cycle makes, in order.\<close>

datatype call =
    RequestPermission
  | GetPosition
  | ReverseGeocode real real
  | HttpGet real real

text \<open>The component's state, one field per \<open>useState\<close>.\<close>

record screen =
  loading :: bool
  refreshing :: bool
  error :: "string option"
  daily :: "DailyWeather list"
  place :: "string option"
  coords :: "(real \<times> real) option"

text \<open>\<open>[...].filter(Boolean).join(", ")\<close> on strings that may be null.\<close>

definition filter_Boolean :: "string option list \<Rightarrow> string list" where
  "filter_Boolean xs =
     concat (map (\<lambda>x. case x of None \<Rightarrow> [] | Some s \<Rightarrow> if s = [] then [] else [s]) xs)"

fun join :: "string \<Rightarrow> string list \<Rightarrow> string" where
  "join sep [] = []"
| "join sep [x] = x"
| "join sep (x # y # ys) = x @ sep @ join sep (y # ys)"

text \<open>Step 3, lines 123 to 143: the value handed to \<open>setPlace\<close>.\<close>

definition reverseGeocode_place :: "js_exn + LocationGeocodedAddress list option \<Rightarrow> string option" where
  "reverseGeocode_place outcome =
     (case outcome of
        Inl geoErr \<Rightarrow> None
      | Inr None \<Rightarrow> Some ''Unknown location''
      | Inr (Some []) \<Rightarrow> Some ''Unknown location''
      | Inr (Some (addr # _)) \<Rightarrow>
          (let joined = join '', '' (filter_Boolean [city addr, region addr, country addr]);
               nice = (if joined = [] then ''Unknown location'' else joined)
           in Some nice))"

text \<open>
  The \<open>try\<close> block. The result is the exception that left the block, if any, the state
  after the block's \<open>set...\<close> calls, and the calls made.
\<close>

definition fetchWeather_try ::
  "(string \<Rightarrow> int option) \<Rightarrow> world \<Rightarrow> screen \<Rightarrow> js_exn option \<times> screen \<times> call list" where
  "fetchWeather_try getTime w s0 =
     (let s1 = s0\<lparr> error := None, loading := True \<rparr> in
      case requestForegroundPermissionsAsync w of
        Inl e \<Rightarrow> (Some e, s1, [RequestPermission])
      | Inr status \<Rightarrow>
          if status \<noteq> GRANTED then
            (None,
             s1\<lparr> error := Some ''Location permission denied. Enable it in Settings.'',
                 loading := False \<rparr>,
             [RequestPermission])
          else
            (case getCurrentPositionAsync w of
               Inl e \<Rightarrow> (Some e, s1, [RequestPermission, GetPosition])
             | Inr (latitude, longitude) \<Rightarrow>
                 (let s2 = s1\<lparr> coords := Some (latitude, longitude) \<rparr>;
                      s3 = s2\<lparr> place :=
                                reverseGeocode_place (reverseGeocodeAsync w latitude longitude) \<rparr>;
                      calls = [RequestPermission, GetPosition,
                               ReverseGeocode latitude longitude, HttpGet latitude longitude]
                  in case axios_get w latitude longitude of
                       Inl e \<Rightarrow> (Some e, s3, calls)
                     | Inr res \<Rightarrow>
                         (case fetchWeather_normalize getTime res of
                            Inl e \<Rightarrow> (Some e, s3, calls)
                          | Inr days \<Rightarrow> (None, s3\<lparr> daily := days \<rparr>, calls)))))"

text \<open>The whole callback: \<open>try\<close>, then \<open>catch\<close> when something was thrown, then \<open>finally\<close>.\<close>

definition fetchWeather ::
  "(string \<Rightarrow> int option) \<Rightarrow> world \<Rightarrow> screen \<Rightarrow> screen \<times> call list" where
  "fetchWeather getTime w s0 =
     (case fetchWeather_try getTime w s0 of
        (thrown, s, calls) \<Rightarrow>
          (let s' = (case thrown of
                       None \<Rightarrow> s
                     | Some err \<Rightarrow>
                         s\<lparr> error := Some (nullish (message err) ''Failed to load weather.'') \<rparr>)
           in (s'\<lparr> loading := False, refreshing := False \<rparr>, calls)))"

subsection \<open>The description table, as the specification words it\<close>

text \<open>
  The specification gives the descriptions as a table of inclusive ranges, first match
  wins, with "Weather code" followed by the code for a code in no range. This second
  definition follows those words; it is compared with \<open>describeWeatherCode\<close> below.
\<close>

definition spec_description_table :: "(int \<times> int \<times> string) list" where
  "spec_description_table =
     [(0, 0, ''Clear sky''), (1, 2, ''Mainly clear''), (3, 3, ''Cloudy''), (45, 48, ''Fog''),
      (51, 57, ''Drizzle''), (61, 67, ''Rain''), (71, 77, ''Snow''), (80, 82, ''Rain showers''),
      (95, 99, ''Thunderstorm'')]"

definition spec_description :: "int \<Rightarrow> string" where
  "spec_description code =
     (case find (\<lambda>(lo, hi, label). lo \<le> code \<and> code \<le> hi) spec_description_table of
        Some (lo, hi, label) \<Rightarrow> label
      | None \<Rightarrow> ''Weather code '' @ number_to_string code)"

section \<open>A concrete cycle\<close>

text \<open>
  The scenario used to run the definitions: the device at 40 N, 75 W, a provider that
  answers with the daily object given, and the component as it is mounted. The provider
  sends up to ten days starting on 2025-11-17; the time stamps are local noon at UTC-5.
\<close>

definition scenario_dates :: "string list" where
  "scenario_dates =
     [''2025-11-17'', ''2025-11-18'', ''2025-11-19'', ''2025-11-20'', ''2025-11-21'',
      ''2025-11-22'', ''2025-11-23'', ''2025-11-24'', ''2025-11-25'', ''2025-11-26'']"

definition scenario_getTime :: "string \<Rightarrow> int option" where
  "scenario_getTime =
     map_of
       [(''2025-11-17T12:00:00'', 1763398800000), (''2025-11-18T12:00:00'', 1763485200000),
        (''2025-11-19T12:00:00'', 1763571600000), (''2025-11-20T12:00:00'', 1763658000000),
        (''2025-11-21T12:00:00'', 1763744400000), (''2025-11-22T12:00:00'', 1763830800000),
        (''2025-11-23T12:00:00'', 1763917200000), (''2025-11-24T12:00:00'', 1764003600000),
        (''2025-11-25T12:00:00'', 1764090000000), (''2025-11-26T12:00:00'', 1764176400000)]"

definition scenario_daily :: OpenMeteoDaily where
  "scenario_daily =
     \<lparr> time = Some [''2025-11-17''],
       temperature_2m_max = [Some 15],
       temperature_2m_min = [Some 5],
       precipitation_probability_max = Some [Some 50],
       weathercode = Some [Some 61] \<rparr>"

definition scenario_address :: LocationGeocodedAddress where
  "scenario_address =
     \<lparr> city = Some ''Philadelphia'', region = Some ''Pennsylvania'',
       country = Some ''United States'' \<rparr>"

definition scenario_world :: "OpenMeteoDaily \<Rightarrow> world" where
  "scenario_world d =
     \<lparr> requestForegroundPermissionsAsync = Inr GRANTED,
       getCurrentPositionAsync = Inr (40, -75),
       reverseGeocodeAsync = (\<lambda>_ _. Inr (Some [scenario_address])),
       axios_get = (\<lambda>_ _. Inr \<lparr> OpenMeteoResponse.daily = Some d \<rparr>) \<rparr>"

definition initial_screen :: screen where
  "initial_screen =
     \<lparr> loading = True, refreshing = False, error = None, daily = [], place = None,
       coords = None \<rparr>"

lemmas scenario_defs =
  scenario_getTime_def scenario_dates_def scenario_daily_def scenario_address_def
  scenario_world_def initial_screen_def

lemmas mapDay_defs =
  mapDay_def Let_def Math_round_def nullish_def opt_index_def at_index_def
  describeWeatherCode_def

section \<open>Basic facts about the mapping and the cycle\<close>

lemma length_mapped: "length (mapped g d ts) = length ts"
  by (simp add: mapped_def)

lemma nth_mapped: "i < length ts \<Longrightarrow> mapped g d ts ! i = mapDay g d (ts ! i) i"
  by (simp add: mapped_def nth_enumerate_eq)

lemma normalize_dates:
  "OpenMeteoResponse.daily res = Some d \<Longrightarrow> time d = Some ts \<Longrightarrow> ts \<noteq> [] \<Longrightarrow>
   fetchWeather_normalize g res = Inr (take 7 (mapped g d ts))"
  by (simp add: fetchWeather_normalize_def)

lemma normalize_no_dates:
  "OpenMeteoResponse.daily res = None
   \<or> (\<exists>d. OpenMeteoResponse.daily res = Some d \<and> (time d = None \<or> time d = Some [])) \<Longrightarrow>
   fetchWeather_normalize g res = Inl (Thrown (Some ''No daily forecast data received.''))"
  by (auto simp: fetchWeather_normalize_def)

text \<open>
  Once the permission is granted and the position is known, the cycle sets the
  coordinates and the place, makes all four calls, and ends according to the answer of the
  provider.
\<close>

lemma fetchWeather_located:
  assumes "requestForegroundPermissionsAsync w = Inr GRANTED"
      and "getCurrentPositionAsync w = Inr (lat, lon)"
  shows "fetchWeather g w s =
     (let s3 = s\<lparr> error := None, coords := Some (lat, lon),
                  place := reverseGeocode_place (reverseGeocodeAsync w lat lon) \<rparr>;
          calls = [RequestPermission, GetPosition, ReverseGeocode lat lon, HttpGet lat lon];
          failed = (\<lambda>e. s3\<lparr> loading := False, refreshing := False,
                             error := Some (nullish (message e) ''Failed to load weather.'') \<rparr>)
      in case axios_get w lat lon of
           Inl e \<Rightarrow> (failed e, calls)
         | Inr res \<Rightarrow>
             (case fetchWeather_normalize g res of
                Inl e \<Rightarrow> (failed e, calls)
              | Inr days \<Rightarrow> (s3\<lparr> loading := False, refreshing := False, daily := days \<rparr>, calls)))"
  using assms
  by (simp add: fetchWeather_def fetchWeather_try_def Let_def split: sum.splits)

text \<open>For a code that is present, \<open>describeWeatherCode\<close> is the table.\<close>

lemma describeWeatherCode_table: "describeWeatherCode (Some code) = spec_description code"
  by (simp add: describeWeatherCode_def spec_description_def spec_description_table_def)

text \<open>
  The description of a day is the table's entry for the code at the day's index, where an
  absent code has become 0 before the table is consulted.
\<close>

lemma mapDay_description:
  "weather (mapDay g d s i) =
     (let code = (case opt_index (weathercode d) i of None \<Rightarrow> 0 | Some c \<Rightarrow> c)
      in Some [\<lparr> id' = Some code, main = spec_description code,
                 description = spec_description code, icon = [] \<rparr>])"
  by (simp add: mapDay_def Let_def nullish_def describeWeatherCode_table split: option.splits)

section \<open>The advisory classifier\<close>

text \<open>
  C1. For every day record, \<open>getCarCoverAdvice\<close> returns the category \<open>No\<close>, the one
  shown in red, exactly when the precipitation probability, taken as 0 when absent, is at
  least 0.4, or the first condition code, taken as 800 when the conditions sequence is
  absent or empty (or its first entry carries no code), lies in [200, 600).
\<close>

theorem getCarCoverAdvice_no_iff:
  "(getCarCoverAdvice d = No \<longleftrightarrow>
      (case pop d of None \<Rightarrow> 0 | Some p \<Rightarrow> p) \<ge> 0.4
      \<or> (case weather d of
            None \<Rightarrow> 800
          | Some [] \<Rightarrow> 800
          | Some (w # _) \<Rightarrow> (case id' w of None \<Rightarrow> 800 | Some c \<Rightarrow> c)) \<in> {200..<600})
   \<and> (adviceColor (getCarCoverAdvice d) = ''#dc2626'' \<longleftrightarrow> getCarCoverAdvice d = No)"
proof -
  have colour: "adviceColor a = ''#dc2626'' \<longleftrightarrow> a = No" for a
    by (cases a) simp_all
  show ?thesis
    by (simp add: colour getCarCoverAdvice_def first_id_def nullish_def Let_def
        split: option.splits list.splits)
qed

text \<open>
  The day of the scenario (probability 50 percent, code 61) is classified \<open>No\<close>; a day
  without probability and with an empty conditions sequence is not.
\<close>

theorem getCarCoverAdvice_no_iff_witness:
  "getCarCoverAdvice (mapDay scenario_getTime scenario_daily ''2025-11-17'' 0) = No
   \<and> getCarCoverAdvice \<lparr> dt = None, temp = \<lparr> min' = None, max' = None \<rparr>, pop = None,
                          weather = Some [] \<rparr> \<noteq> No"
  using getCarCoverAdvice_no_iff [of "mapDay scenario_getTime scenario_daily ''2025-11-17'' 0"]
    getCarCoverAdvice_no_iff [of "\<lparr> dt = None, temp = \<lparr> min' = None, max' = None \<rparr>, pop = None,
                                   weather = Some [] \<rparr>"]
  by (simp add: mapDay_defs scenario_defs)

text \<open>
  C2. For every day record whose precipitation probability (0 when absent) is below 0.4
  and whose first condition code (800 when absent) lies outside [200, 600), the classifier
  returns \<open>Optional\<close> when the probability is at least 0.2 and \<open>Cover\<close> when it is below
  0.2.
\<close>

theorem getCarCoverAdvice_below_thresholds:
  assumes "(case pop d of None \<Rightarrow> 0 | Some p \<Rightarrow> p) < 0.4"
      and "(case weather d of
              None \<Rightarrow> 800
            | Some [] \<Rightarrow> 800
            | Some (w # _) \<Rightarrow> (case id' w of None \<Rightarrow> 800 | Some c \<Rightarrow> c)) \<notin> {200..<600}"
  shows "getCarCoverAdvice d =
           (if (case pop d of None \<Rightarrow> 0 | Some p \<Rightarrow> p) \<ge> 0.2 then Optional else Cover)"
  using assms
  by (simp add: getCarCoverAdvice_def first_id_def nullish_def Let_def
      split: option.splits list.splits)

theorem getCarCoverAdvice_below_thresholds_witness:
  "getCarCoverAdvice \<lparr> dt = None, temp = \<lparr> min' = None, max' = None \<rparr>, pop = Some 0.3,
                        weather = Some [\<lparr> id' = Some 3, main = ''Cloudy'',
                                          description = ''Cloudy'', icon = [] \<rparr>] \<rparr> = Optional
   \<and> getCarCoverAdvice \<lparr> dt = None, temp = \<lparr> min' = None, max' = None \<rparr>, pop = None,
                          weather = None \<rparr> = Cover"
  using getCarCoverAdvice_below_thresholds
          [of "\<lparr> dt = None, temp = \<lparr> min' = None, max' = None \<rparr>, pop = Some 0.3,
                 weather = Some [\<lparr> id' = Some 3, main = ''Cloudy'',
                                   description = ''Cloudy'', icon = [] \<rparr>] \<rparr>"]
        getCarCoverAdvice_below_thresholds
          [of "\<lparr> dt = None, temp = \<lparr> min' = None, max' = None \<rparr>, pop = None, weather = None \<rparr>"]
  by simp

section \<open>The normalizer\<close>

text \<open>
  C3 does not hold as stated: the division by 100 is unconditional. The provider's 50
  becomes 0.5, and a value that is already 0.5 becomes 0.005.
\<close>

theorem pop_rescaled_counterexample:
  "fetchWeather_normalize scenario_getTime \<lparr> OpenMeteoResponse.daily = Some scenario_daily \<rparr>
   = Inr [\<lparr> dt = Some 1763398800,
            temp = \<lparr> min' = Some 5, max' = Some 15 \<rparr>,
            pop = Some 0.5,
            weather = Some [\<lparr> id' = Some 61, main = ''Rain'', description = ''Rain'',
                              icon = [] \<rparr>] \<rparr>]
   \<and> fetchWeather_normalize scenario_getTime
       \<lparr> OpenMeteoResponse.daily =
           Some (scenario_daily\<lparr> precipitation_probability_max := Some [Some 0.5] \<rparr>) \<rparr>
     = Inr [\<lparr> dt = Some 1763398800,
              temp = \<lparr> min' = Some 5, max' = Some 15 \<rparr>,
              pop = Some 0.005,
              weather = Some [\<lparr> id' = Some 61, main = ''Rain'', description = ''Rain'',
                                icon = [] \<rparr>] \<rparr>]"
  by (simp add: fetchWeather_normalize_def mapped_def enumerate_eq_zip mapDay_defs scenario_defs)

text \<open>
  C3, amended. The normalizer divides the provider's value at each index by 100, once and
  whatever the value is, taking 0 for an absent value; a value already in [0, 1] is divided
  like any other. When the provider's value lies in [0, 100], as the provider's scale has
  it, the resulting probability lies in [0, 1].
\<close>

theorem pop_divided_by_100_once:
  assumes "OpenMeteoResponse.daily res = Some d"
      and "time d = Some ts"
      and "i < length ts"
      and "i < 7"
  shows "\<exists>days. fetchWeather_normalize g res = Inr days \<and> i < length days
           \<and> (let popRaw = (case precipitation_probability_max d of
                               None \<Rightarrow> 0
                             | Some ps \<Rightarrow>
                                 if i < length ps
                                 then (case ps ! i of None \<Rightarrow> 0 | Some p \<Rightarrow> p)
                                 else 0)
              in pop (days ! i) = Some (popRaw / 100)
                 \<and> (0 \<le> popRaw \<and> popRaw \<le> 100 \<longrightarrow>
                      pop (days ! i) \<in> Some ` {0..1}))"
proof -
  from assms(3) have ne: "ts \<noteq> []" by auto
  have n: "fetchWeather_normalize g res = Inr (take 7 (mapped g d ts))"
    by (rule normalize_dates[OF assms(1,2) ne])
  have l: "i < length (take 7 (mapped g d ts))"
    using assms(3,4) by (simp add: length_mapped)
  have e: "take 7 (mapped g d ts) ! i = mapDay g d (ts ! i) i"
    using assms(3,4) by (simp add: nth_mapped)
  have p: "pop (mapDay g d (ts ! i) i)
           = Some ((case precipitation_probability_max d of
                      None \<Rightarrow> 0
                    | Some ps \<Rightarrow>
                        if i < length ps
                        then (case ps ! i of None \<Rightarrow> 0 | Some p \<Rightarrow> p)
                        else 0) / 100)"
    by (simp add: mapDay_def Let_def nullish_def opt_index_def at_index_def
        split: option.splits)
  have u: "Some (r / 100) \<in> Some ` {0..1}" if "0 \<le> r" and "r \<le> 100" for r :: real
    using that by (intro imageI) simp
  show ?thesis
    unfolding n using l u by (simp add: e p Let_def)
qed

text \<open>The scenario's 50 percent becomes the probability 0.5.\<close>

theorem pop_divided_by_100_once_witness:
  "\<exists>days. fetchWeather_normalize scenario_getTime \<lparr> OpenMeteoResponse.daily = Some scenario_daily \<rparr>
             = Inr days
          \<and> 0 < length days \<and> pop (days ! 0) = Some 0.5"
  using pop_divided_by_100_once
          [of "\<lparr> OpenMeteoResponse.daily = Some scenario_daily \<rparr>" scenario_daily
              "[''2025-11-17'']" 0 scenario_getTime]
  by (auto simp: scenario_daily_def Let_def)

text \<open>
  C4 does not hold as stated: the source never compares lengths. With two dates and one
  element in every other array the cycle ends without error and publishes two days; the
  second day has no temperatures, probability 0 and code 0.
\<close>

theorem length_mismatch_counterexample:
  "length (temperature_2m_max (scenario_daily\<lparr> time := Some (take 2 scenario_dates) \<rparr>))
     \<noteq> length (take 2 scenario_dates)
   \<and> fetchWeather scenario_getTime
       (scenario_world (scenario_daily\<lparr> time := Some (take 2 scenario_dates) \<rparr>)) initial_screen
     = (\<lparr> loading = False, refreshing = False, error = None,
          daily =
            [\<lparr> dt = Some 1763398800,
               temp = \<lparr> min' = Some 5, max' = Some 15 \<rparr>,
               pop = Some 0.5,
               weather = Some [\<lparr> id' = Some 61, main = ''Rain'', description = ''Rain'',
                                 icon = [] \<rparr>] \<rparr>,
             \<lparr> dt = Some 1763485200,
               temp = \<lparr> min' = None, max' = None \<rparr>,
               pop = Some 0,
               weather = Some [\<lparr> id' = Some 0, main = ''Clear sky'',
                                 description = ''Clear sky'', icon = [] \<rparr>] \<rparr>],
          place = Some ''Philadelphia, Pennsylvania, United States'',
          coords = Some (40, -75) \<rparr>,
        [RequestPermission, GetPosition, ReverseGeocode 40 (-75), HttpGet 40 (-75)])"
  by (simp add: fetchWeather_def fetchWeather_try_def fetchWeather_normalize_def mapped_def
      enumerate_eq_zip upt_conv_Cons reverseGeocode_place_def filter_Boolean_def mapDay_defs
      scenario_defs)

text \<open>
  C4, amended. A mismatch between the lengths of the per-day arrays and the date series
  does not make the normalization fail. For every response that the cycle receives, with a
  date series and the two temperature arrays of the declared shape, in which some per-day
  array differs in length from the date series: when the date series is not empty the cycle
  ends without an error, not loading, with one day per date and at most seven; it ends with
  the error "No daily forecast data received." only when the date series is empty.
\<close>

theorem fetchWeather_length_mismatch:
  assumes "requestForegroundPermissionsAsync w = Inr GRANTED"
      and "getCurrentPositionAsync w = Inr (lat, lon)"
      and "axios_get w lat lon = Inr res"
      and "OpenMeteoResponse.daily res = Some d"
      and "time d = Some ts"
      and "length (temperature_2m_max d) \<noteq> length ts
           \<or> length (temperature_2m_min d) \<noteq> length ts
           \<or> (\<exists>ps. precipitation_probability_max d = Some ps \<and> length ps \<noteq> length ts)
           \<or> (\<exists>cs. weathercode d = Some cs \<and> length cs \<noteq> length ts)"
  shows "(ts \<noteq> [] \<longrightarrow>
            error (fst (fetchWeather g w s)) = None
            \<and> \<not> loading (fst (fetchWeather g w s))
            \<and> length (daily (fst (fetchWeather g w s))) = min (length ts) 7)
         \<and> (ts = [] \<longrightarrow>
            error (fst (fetchWeather g w s)) = Some ''No daily forecast data received.''
            \<and> \<not> loading (fst (fetchWeather g w s))
            \<and> daily (fst (fetchWeather g w s)) = daily s)"
proof (cases "ts = []")
  case True
  with assms(4,5) have "OpenMeteoResponse.daily res = None
      \<or> (\<exists>d. OpenMeteoResponse.daily res = Some d \<and> (time d = None \<or> time d = Some []))"
    by simp
  from normalize_no_dates[OF this, of g] assms(3) True show ?thesis
    by (simp add: fetchWeather_located[OF assms(1,2)] nullish_def)
next
  case False
  from normalize_dates[OF assms(4,5) False, of g] assms(3) False show ?thesis
    by (simp add: fetchWeather_located[OF assms(1,2)] length_mapped)
qed

text \<open>
  Two dates against arrays of length one end without an error and with two days; no date
  against arrays of length one ends with the message.
\<close>

theorem fetchWeather_length_mismatch_witness:
  "error (fst (fetchWeather scenario_getTime
                 (scenario_world (scenario_daily\<lparr> time := Some (take 2 scenario_dates) \<rparr>))
                 initial_screen)) = None
   \<and> \<not> loading (fst (fetchWeather scenario_getTime
                 (scenario_world (scenario_daily\<lparr> time := Some (take 2 scenario_dates) \<rparr>))
                 initial_screen))
   \<and> length (daily (fst (fetchWeather scenario_getTime
                 (scenario_world (scenario_daily\<lparr> time := Some (take 2 scenario_dates) \<rparr>))
                 initial_screen))) = 2
   \<and> error (fst (fetchWeather scenario_getTime
                 (scenario_world (scenario_daily\<lparr> time := Some [] \<rparr>))
                 initial_screen)) = Some ''No daily forecast data received.''"
proof -
  let ?d2 = "scenario_daily\<lparr> time := Some (take 2 scenario_dates) \<rparr>"
  let ?d0 = "scenario_daily\<lparr> time := Some [] \<rparr>"
  have t: "take 2 scenario_dates = [''2025-11-17'', ''2025-11-18'']"
    by (simp add: scenario_dates_def)
  have two: "error (fst (fetchWeather scenario_getTime (scenario_world ?d2) initial_screen)) = None
      \<and> \<not> loading (fst (fetchWeather scenario_getTime (scenario_world ?d2) initial_screen))
      \<and> length (daily (fst (fetchWeather scenario_getTime (scenario_world ?d2) initial_screen))) = 2"
    using fetchWeather_length_mismatch
            [of "scenario_world ?d2" 40 "-75" "\<lparr> OpenMeteoResponse.daily = Some ?d2 \<rparr>" ?d2
                "take 2 scenario_dates" scenario_getTime initial_screen]
    by (simp add: scenario_world_def scenario_daily_def t)
  have none: "error (fst (fetchWeather scenario_getTime (scenario_world ?d0) initial_screen))
                = Some ''No daily forecast data received.''"
    using fetchWeather_length_mismatch
            [of "scenario_world ?d0" 40 "-75" "\<lparr> OpenMeteoResponse.daily = Some ?d0 \<rparr>" ?d0
                "[]" scenario_getTime initial_screen]
    by (simp add: scenario_world_def scenario_daily_def)
  from two none show ?thesis by simp
qed

text \<open>
  C5. For a code that is present the description is the table's (lemmas
  \<open>describeWeatherCode_table\<close> and \<open>mapDay_description\<close>). For an absent code the
  description is not empty, although \<open>describeWeatherCode\<close> returns the empty string for
  an absent code: \<open>fetchWeather\<close> replaces the absent code by 0 before the call, so the
  day is described as "Clear sky", both when the provider sends no code array and when the
  element is null.
\<close>

theorem absent_weathercode_described_as_clear_sky:
  "describeWeatherCode None = []
   \<and> fetchWeather_normalize scenario_getTime
       \<lparr> OpenMeteoResponse.daily = Some (scenario_daily\<lparr> weathercode := None \<rparr>) \<rparr>
     = Inr [\<lparr> dt = Some 1763398800,
              temp = \<lparr> min' = Some 5, max' = Some 15 \<rparr>,
              pop = Some 0.5,
              weather = Some [\<lparr> id' = Some 0, main = ''Clear sky'',
                                description = ''Clear sky'', icon = [] \<rparr>] \<rparr>]
   \<and> fetchWeather_normalize scenario_getTime
       \<lparr> OpenMeteoResponse.daily = Some (scenario_daily\<lparr> weathercode := Some [None] \<rparr>) \<rparr>
     = Inr [\<lparr> dt = Some 1763398800,
              temp = \<lparr> min' = Some 5, max' = Some 15 \<rparr>,
              pop = Some 0.5,
              weather = Some [\<lparr> id' = Some 0, main = ''Clear sky'',
                                description = ''Clear sky'', icon = [] \<rparr>] \<rparr>]"
  by (simp add: fetchWeather_normalize_def mapped_def enumerate_eq_zip mapDay_defs scenario_defs)

text \<open>
  C6. For every response with n > 0 dates that the cycle receives, the published day list
  has length min(n, 7), and its i-th day is the one built from the provider's i-th entry.
  (A response with no dates publishes nothing: the cycle ends in the error of C7.)
\<close>

theorem fetchWeather_first_seven:
  assumes "requestForegroundPermissionsAsync w = Inr GRANTED"
      and "getCurrentPositionAsync w = Inr (lat, lon)"
      and "axios_get w lat lon = Inr res"
      and "OpenMeteoResponse.daily res = Some d"
      and "time d = Some ts"
      and "ts \<noteq> []"
  shows "error (fst (fetchWeather g w s)) = None
         \<and> \<not> loading (fst (fetchWeather g w s))
         \<and> length (daily (fst (fetchWeather g w s))) = min (length ts) 7
         \<and> (\<forall>i < min (length ts) 7. daily (fst (fetchWeather g w s)) ! i = mapDay g d (ts ! i) i)"
  using assms(3) normalize_dates[OF assms(4,5,6), of g]
  by (simp add: fetchWeather_located[OF assms(1,2)] length_mapped nth_mapped)

text \<open>Ten dates: seven days, the first from 2025-11-17 and the last from 2025-11-23.\<close>

theorem fetchWeather_first_seven_witness:
  "length (daily (fst (fetchWeather scenario_getTime
                         (scenario_world (scenario_daily\<lparr> time := Some scenario_dates \<rparr>))
                         initial_screen))) = 7
   \<and> daily (fst (fetchWeather scenario_getTime
                    (scenario_world (scenario_daily\<lparr> time := Some scenario_dates \<rparr>))
                    initial_screen)) ! 0
     = mapDay scenario_getTime (scenario_daily\<lparr> time := Some scenario_dates \<rparr>) ''2025-11-17'' 0
   \<and> daily (fst (fetchWeather scenario_getTime
                    (scenario_world (scenario_daily\<lparr> time := Some scenario_dates \<rparr>))
                    initial_screen)) ! 6
     = mapDay scenario_getTime (scenario_daily\<lparr> time := Some scenario_dates \<rparr>) ''2025-11-23'' 6"
proof -
  let ?d = "scenario_daily\<lparr> time := Some scenario_dates \<rparr>"
  let ?s = "fst (fetchWeather scenario_getTime (scenario_world ?d) initial_screen)"
  have len10: "length scenario_dates = 10"
    and d0: "scenario_dates ! 0 = ''2025-11-17''"
    and d6: "scenario_dates ! 6 = ''2025-11-23''"
    by (simp_all add: scenario_dates_def)
  have "error ?s = None \<and> \<not> loading ?s \<and> length (daily ?s) = min (length scenario_dates) 7
        \<and> (\<forall>i < min (length scenario_dates) 7.
              daily ?s ! i = mapDay scenario_getTime ?d (scenario_dates ! i) i)"
    by (rule fetchWeather_first_seven
              [of "scenario_world ?d" 40 "-75" "\<lparr> OpenMeteoResponse.daily = Some ?d \<rparr>" ?d
                  scenario_dates])
       (simp_all add: scenario_world_def scenario_dates_def)
  then have len: "length (daily ?s) = 7"
    and nth: "\<forall>i<7. daily ?s ! i = mapDay scenario_getTime ?d (scenario_dates ! i) i"
    by (simp_all add: len10)
  from nth have "daily ?s ! 0 = mapDay scenario_getTime ?d (scenario_dates ! 0) 0"
    and "daily ?s ! 6 = mapDay scenario_getTime ?d (scenario_dates ! 6) 6"
    by simp_all
  with len show ?thesis
    by (simp only: d0 d6 simp_thms)
qed

section \<open>The acquisition cycle\<close>

text \<open>
  C7. Whenever the provider's response has no daily object, no date series, or an empty
  date series, the cycle ends with the error message "No daily forecast data received.",
  not loading, and the day list as it was.
\<close>

theorem fetchWeather_no_daily_data:
  assumes "requestForegroundPermissionsAsync w = Inr GRANTED"
      and "getCurrentPositionAsync w = Inr (lat, lon)"
      and "axios_get w lat lon = Inr res"
      and "OpenMeteoResponse.daily res = None
           \<or> (\<exists>d. OpenMeteoResponse.daily res = Some d \<and> (time d = None \<or> time d = Some []))"
  shows "error (fst (fetchWeather g w s)) = Some ''No daily forecast data received.''
         \<and> \<not> loading (fst (fetchWeather g w s))
         \<and> daily (fst (fetchWeather g w s)) = daily s"
  using assms(3) normalize_no_dates[OF assms(4), of g]
  by (simp add: fetchWeather_located[OF assms(1,2)] nullish_def)

theorem fetchWeather_no_daily_data_witness:
  "error (fst (fetchWeather scenario_getTime (scenario_world (scenario_daily\<lparr> time := Some [] \<rparr>))
                 initial_screen))
   = Some ''No daily forecast data received.''"
  using fetchWeather_no_daily_data
          [of "scenario_world (scenario_daily\<lparr> time := Some [] \<rparr>)" 40 "-75"
              "\<lparr> OpenMeteoResponse.daily = Some (scenario_daily\<lparr> time := Some [] \<rparr>) \<rparr>"
              scenario_getTime initial_screen]
  by (simp add: scenario_world_def)

text \<open>
  C8. Whenever the permission request resolves with a status other than granted, the
  cycle ends with an error message that begins with "Location permission denied", not
  loading. The permission request is the only call of the cycle: no position is read, no
  request goes to the weather provider, nothing is tried again, and coordinates, place and
  day list stay as they were.
\<close>

theorem fetchWeather_permission_denied:
  assumes "requestForegroundPermissionsAsync w = Inr status" and "status \<noteq> GRANTED"
  shows "fetchWeather g w s =
           (s\<lparr> error := Some (''Location permission denied'' @ ''. Enable it in Settings.''),
               loading := False, refreshing := False \<rparr>,
            [RequestPermission])"
  using assms by (simp add: fetchWeather_def fetchWeather_try_def)

theorem fetchWeather_permission_denied_witness:
  "fetchWeather scenario_getTime
     ((scenario_world scenario_daily)\<lparr> requestForegroundPermissionsAsync := Inr DENIED \<rparr>)
     initial_screen =
   (initial_screen\<lparr> error := Some ''Location permission denied. Enable it in Settings.'',
                    loading := False \<rparr>,
    [RequestPermission])"
  using fetchWeather_permission_denied
          [of "(scenario_world scenario_daily)\<lparr> requestForegroundPermissionsAsync := Inr DENIED \<rparr>"
              DENIED scenario_getTime initial_screen]
  by (simp add: scenario_world_def initial_screen_def)

text \<open>
  C9. If reverse geocoding rejects, the cycle goes on as it does when reverse geocoding
  resolves, with any result: the final state differs from that cycle's only in the place,
  which is absent, so no error comes from this step, and the same calls are made, the
  forecast request among them.
\<close>

theorem reverseGeocode_failure_swallowed:
  assumes "requestForegroundPermissionsAsync w = Inr GRANTED"
      and "getCurrentPositionAsync w = Inr (lat, lon)"
      and "reverseGeocodeAsync w lat lon = Inl geoErr"
  shows "fst (fetchWeather g w s) =
           (fst (fetchWeather g (w\<lparr> reverseGeocodeAsync := \<lambda>_ _. Inr results \<rparr>) s))\<lparr> place := None \<rparr>
         \<and> snd (fetchWeather g w s) =
           snd (fetchWeather g (w\<lparr> reverseGeocodeAsync := \<lambda>_ _. Inr results \<rparr>) s)
         \<and> place (fst (fetchWeather g w s)) = None
         \<and> HttpGet lat lon \<in> set (snd (fetchWeather g w s))"
proof -
  let ?w' = "w\<lparr> reverseGeocodeAsync := \<lambda>_ _. Inr results \<rparr>"
  have p: "requestForegroundPermissionsAsync ?w' = Inr GRANTED"
    and q: "getCurrentPositionAsync ?w' = Inr (lat, lon)"
    using assms by simp_all
  show ?thesis
    using assms(3)
    by (simp add: fetchWeather_located[OF assms(1,2)] fetchWeather_located[OF p q]
        reverseGeocode_place_def Let_def split: sum.splits)
qed

theorem reverseGeocode_failure_swallowed_witness:
  "fetchWeather scenario_getTime
     ((scenario_world scenario_daily)
        \<lparr> reverseGeocodeAsync := \<lambda>_ _. Inl (Thrown (Some ''geocoder unavailable'')) \<rparr>)
     initial_screen
   = (let r = fetchWeather scenario_getTime (scenario_world scenario_daily) initial_screen
      in ((fst r)\<lparr> place := None \<rparr>, snd r))"
proof -
  let ?w = "(scenario_world scenario_daily)
              \<lparr> reverseGeocodeAsync := \<lambda>_ _. Inl (Thrown (Some ''geocoder unavailable'')) \<rparr>"
  have same: "?w\<lparr> reverseGeocodeAsync := \<lambda>_ _. Inr (Some [scenario_address]) \<rparr>
              = scenario_world scenario_daily"
    by (simp add: scenario_world_def)
  show ?thesis
    using reverseGeocode_failure_swallowed
            [of ?w 40 "-75" "Thrown (Some ''geocoder unavailable'')" scenario_getTime
                initial_screen "Some [scenario_address]"]
    unfolding same
    by (simp add: scenario_world_def prod_eq_iff Let_def)
qed

text \<open>
  C10. In a cycle that reaches the reverse geocoding step: if the call resolves with no
  list or an empty list, or with a first candidate whose city, region and country are all
  null or empty, the place is the string "Unknown location"; and the place is absent
  exactly when the call rejects.
\<close>

theorem place_unknown_location:
  assumes "requestForegroundPermissionsAsync w = Inr GRANTED"
      and "getCurrentPositionAsync w = Inr (lat, lon)"
  shows "(reverseGeocodeAsync w lat lon = Inr None \<or> reverseGeocodeAsync w lat lon = Inr (Some []) \<longrightarrow>
            place (fst (fetchWeather g w s)) = Some ''Unknown location'')
         \<and> (\<forall>addr rest. reverseGeocodeAsync w lat lon = Inr (Some (addr # rest))
               \<and> city addr \<in> {None, Some []} \<and> region addr \<in> {None, Some []}
               \<and> country addr \<in> {None, Some []} \<longrightarrow>
            place (fst (fetchWeather g w s)) = Some ''Unknown location'')
         \<and> (place (fst (fetchWeather g w s)) = None \<longleftrightarrow>
              (\<exists>geoErr. reverseGeocodeAsync w lat lon = Inl geoErr))"
proof -
  have pl: "place (fst (fetchWeather g w s)) = reverseGeocode_place (reverseGeocodeAsync w lat lon)"
    by (simp add: fetchWeather_located[OF assms] Let_def split: sum.splits)
  show ?thesis
    unfolding pl
    by (auto simp: reverseGeocode_place_def filter_Boolean_def Let_def
        split: sum.splits option.splits list.splits)
qed

theorem place_unknown_location_witness:
  "place (fst (fetchWeather scenario_getTime
                 ((scenario_world scenario_daily)\<lparr> reverseGeocodeAsync := \<lambda>_ _. Inr (Some []) \<rparr>)
                 initial_screen)) = Some ''Unknown location''
   \<and> place (fst (fetchWeather scenario_getTime
                 ((scenario_world scenario_daily)\<lparr> reverseGeocodeAsync := \<lambda>_ _.
                     Inr (Some [\<lparr> city = Some [], region = None, country = None \<rparr>]) \<rparr>)
                 initial_screen)) = Some ''Unknown location''
   \<and> place (fst (fetchWeather scenario_getTime
                 ((scenario_world scenario_daily)\<lparr> reverseGeocodeAsync := \<lambda>_ _. Inl (Thrown None) \<rparr>)
                 initial_screen)) = None"
  using place_unknown_location
          [of "(scenario_world scenario_daily)\<lparr> reverseGeocodeAsync := \<lambda>_ _. Inr (Some []) \<rparr>"
              40 "-75" scenario_getTime initial_screen]
        place_unknown_location
          [of "(scenario_world scenario_daily)\<lparr> reverseGeocodeAsync := \<lambda>_ _.
                 Inr (Some [\<lparr> city = Some [], region = None, country = None \<rparr>]) \<rparr>"
              40 "-75" scenario_getTime initial_screen]
        place_unknown_location
          [of "(scenario_world scenario_daily)\<lparr> reverseGeocodeAsync := \<lambda>_ _. Inl (Thrown None) \<rparr>"
              40 "-75" scenario_getTime initial_screen]
  by (simp add: scenario_world_def)

end
